theory Spec2Isabelle
  imports Complex_Main "HOL-Library.Log_Nat"
begin

section \<open>Data model (apps/tasks/models.py, apps/timelogs/models.py)\<close>

text \<open>
  Primary keys and user ids are natural numbers, timestamps are abstract natural numbers
  (a \<open>datetime\<close> value is never falsy in Python, so \<open>None\<close> is the only falsy
  \<open>completed_at\<close>). Status and role fields are \<open>CharField\<close>s and stay strings.
  The entity store is a record of tables, each a list of rows. Columns that no operation
  below reads or checks are left out: the dates and links of a task, \<open>assigned_at\<close>,
  \<open>created_at\<close> and \<open>updated_at\<close>, and of a user everything but key and staff flag.
\<close>

type_synonym pk = nat
type_synonym datetime = nat

record User =
  user_pk :: pk
  is_staff :: bool

record Task =
  task_pk :: pk
  task_title :: string
  task_description :: string
  task_status :: string

text \<open>An instance that was never saved has \<open>pk = None\<close>.\<close>

record TaskRole =
  role_pk :: "pk option"
  role_task :: pk
  role_user :: pk
  role :: string

record TaskItem =
  item_pk :: "pk option"
  item_task :: pk
  item_title :: string
  item_description :: string
  executor :: "pk option"
  status :: string
  planned_hours :: rat
  order :: nat
  completed_at :: "datetime option"

text \<open>
  A finite \<open>Decimal\<close> is a signed coefficient and an exponent and denotes
  \<open>coefficient * 10 ^ exponent\<close>. A time log refers to its user and task by key and
  holds its task item, if any, as the related object.
\<close>

record Decimal =
  coefficient :: int
  exponent :: int

record TimeLog =
  log_pk :: "pk option"
  log_user :: pk
  log_task :: pk
  log_task_item :: "TaskItem option"
  log_date :: nat
  hours :: Decimal
  log_description :: string

record db =
  users :: "User list"
  tasks :: "Task list"
  roles :: "TaskRole list"
  items :: "TaskItem list"
  timelogs :: "TimeLog list"

datatype json = JNull | JBool bool | JNum int | JStr string

record request =
  req_user :: User
  req_method :: string
  req_data :: "(string \<times> json) list"

section \<open>Permissions (apps/tasks/permissions.py)\<close>

text \<open>\<open>obj.task.roles.filter(user=request.user, role='assigner').exists()\<close>\<close>

definition is_assigner :: "db \<Rightarrow> pk \<Rightarrow> User \<Rightarrow> bool" where
  "is_assigner d t u =
     list_ex (\<lambda>r. role_task r = t \<and> role_user r = user_pk u \<and> role r = ''assigner'') (roles d)"

text \<open>\<open>set(request.data.keys())\<close>\<close>

definition update_fields :: "request \<Rightarrow> string set" where
  "update_fields rq = set (map fst (req_data rq))"

definition allowed_fields :: "string set" where
  "allowed_fields = {''status''}"

text \<open>\<open>IsTaskItemExecutorOrAssigner.has_object_permission\<close>, branch by branch.\<close>

definition item_executor_or_assigner :: "db \<Rightarrow> request \<Rightarrow> TaskItem \<Rightarrow> bool" where
  "item_executor_or_assigner d rq obj =
     (if is_staff (req_user rq) then True
      else if is_assigner d (item_task obj) (req_user rq) then True
      else if executor obj = Some (user_pk (req_user rq)) then
        (if req_method rq \<in> {''PATCH'', ''PUT''} then
           (if update_fields rq \<subseteq> allowed_fields then True else False)
         else False)
      else False)"

section \<open>TaskItem.save\<close>

text \<open>
  The body of \<open>TaskItem.save\<close> before \<open>super().save()\<close>; \<open>now\<close> is the value of
  \<open>timezone.now()\<close>.
\<close>

definition set_completed_at :: "datetime \<Rightarrow> TaskItem \<Rightarrow> TaskItem" where
  "set_completed_at now it =
     (if status it = ''completed'' \<and> completed_at it = None
        then it\<lparr>completed_at := Some now\<rparr>
      else if status it \<noteq> ''completed'' \<and> completed_at it \<noteq> None
        then it\<lparr>completed_at := None\<rparr>
      else it)"

text \<open>
  Exceptions. A validation error carries one message, or (as the error of
  \<open>full_clean\<close>) the errors by field; an error of a validator of the framework is named
  by its code, an error raised by the repository's code by its message.
\<close>

datatype verr = ErrCode string | ErrMsg string

datatype error =
  ValidationError string | FieldErrors "(string \<times> verr) list" | IntegrityError | TypeError

text \<open>
  \<open>Model.save\<close> of the framework, for a \<open>TaskItem\<close>: an instance without a primary key
  is inserted under the next key, an instance with a key replaces the row of that key (or
  is inserted when there is none). The foreign keys \<open>task\<close> and \<open>executor\<close> must
  reference existing rows, else the store raises \<open>IntegrityError\<close>.
\<close>

definition fresh_pk :: "pk list \<Rightarrow> pk" where
  "fresh_pk ks = Suc (fold max ks 0)"

definition user_exists :: "db \<Rightarrow> pk \<Rightarrow> bool" where
  "user_exists d u = list_ex (\<lambda>x. user_pk x = u) (users d)"

definition task_exists :: "db \<Rightarrow> pk \<Rightarrow> bool" where
  "task_exists d t = list_ex (\<lambda>x. task_pk x = t) (tasks d)"

definition item_pks :: "db \<Rightarrow> pk list" where
  "item_pks d = concat (map (\<lambda>x. case item_pk x of None \<Rightarrow> [] | Some k \<Rightarrow> [k]) (items d))"

definition Model_save_item :: "TaskItem \<Rightarrow> db \<Rightarrow> error + (TaskItem \<times> db)" where
  "Model_save_item it d =
     (if \<not> task_exists d (item_task it) then Inl IntegrityError
      else if (case executor it of None \<Rightarrow> False | Some u \<Rightarrow> \<not> user_exists d u)
        then Inl IntegrityError
      else (case item_pk it of
              None \<Rightarrow>
                (let it' = it\<lparr>item_pk := Some (fresh_pk (item_pks d))\<rparr>
                 in Inr (it', d\<lparr>items := items d @ [it']\<rparr>))
            | Some k \<Rightarrow>
                if list_ex (\<lambda>x. item_pk x = Some k) (items d)
                  then Inr (it, d\<lparr>items := map (\<lambda>x. if item_pk x = Some k then it else x) (items d)\<rparr>)
                else Inr (it, d\<lparr>items := items d @ [it]\<rparr>)))"

definition TaskItem_save :: "datetime \<Rightarrow> TaskItem \<Rightarrow> db \<Rightarrow> error + (TaskItem \<times> db)" where
  "TaskItem_save now it d = Model_save_item (set_completed_at now it) d"


section \<open>Fixtures (apps/tasks/tests/conftest.py)\<close>

text \<open>
  The users, the task with its assigner role and the task item of the test fixtures;
  they serve as concrete inputs below.
\<close>

definition user1 :: User where "user1 = \<lparr>user_pk = 1, is_staff = False\<rparr>"
definition user2 :: User where "user2 = \<lparr>user_pk = 2, is_staff = False\<rparr>"
definition user3 :: User where "user3 = \<lparr>user_pk = 3, is_staff = False\<rparr>"

definition task1 :: Task where
  "task1 = \<lparr>task_pk = 1, task_title = ''Test Task'', task_description = ''Test Description'',
            task_status = ''new''\<rparr>"

definition assigner_role1 :: TaskRole where
  "assigner_role1 = \<lparr>role_pk = Some 1, role_task = 1, role_user = 1, role = ''assigner''\<rparr>"

definition task_item1 :: TaskItem where
  "task_item1 = \<lparr>item_pk = Some 1, item_task = 1, item_title = ''Test Task Item'',
                 item_description = ''Test Description'', executor = Some 2, status = ''todo'',
                 planned_hours = 8, order = 0, completed_at = None\<rparr>"

definition db1 :: db where
  "db1 = \<lparr>users = [user1, user2, user3], tasks = [task1], roles = [assigner_role1],
          items = [task_item1], timelogs = []\<rparr>"

definition patch :: "User \<Rightarrow> (string \<times> json) list \<Rightarrow> request" where
  "patch u body = \<lparr>req_user = u, req_method = ''PATCH'', req_data = body\<rparr>"

section \<open>Visibility of tasks (permissions.py, views.py)\<close>

text \<open>
  \<open>task.roles.filter(user=request.user).exists()\<close> and
  \<open>task.items.filter(executor=request.user).exists()\<close>
\<close>

definition has_role :: "db \<Rightarrow> pk \<Rightarrow> User \<Rightarrow> bool" where
  "has_role d t u = list_ex (\<lambda>r. role_task r = t \<and> role_user r = user_pk u) (roles d)"

definition is_executor :: "db \<Rightarrow> pk \<Rightarrow> User \<Rightarrow> bool" where
  "is_executor d t u = list_ex (\<lambda>i. item_task i = t \<and> executor i = Some (user_pk u)) (items d)"

text \<open>
  The object handed to a permission class is a task item (it has the attribute
  \<open>task\<close>) or a task.
\<close>

datatype obj = ItemObj TaskItem | TaskObj Task

text \<open>\<open>IsTaskParticipant.has_object_permission\<close>\<close>

fun IsTaskParticipant :: "db \<Rightarrow> request \<Rightarrow> obj \<Rightarrow> bool" where
  "IsTaskParticipant d rq (ItemObj i) =
     (if is_staff (req_user rq) then True
      else if has_role d (item_task i) (req_user rq) then True
      else if is_executor d (item_task i) (req_user rq) then True
      else False)"
| "IsTaskParticipant d rq (TaskObj t) =
     (if is_staff (req_user rq) then True
      else if has_role d (task_pk t) (req_user rq) then True
      else if is_executor d (task_pk t) (req_user rq) then True
      else False)"

text \<open>\<open>IsAssigner.has_object_permission\<close>\<close>

fun IsAssigner :: "db \<Rightarrow> request \<Rightarrow> obj \<Rightarrow> bool" where
  "IsAssigner d rq (ItemObj i) =
     (if is_staff (req_user rq) then True else is_assigner d (item_task i) (req_user rq))"
| "IsAssigner d rq (TaskObj t) =
     (if is_staff (req_user rq) then True else is_assigner d (task_pk t) (req_user rq))"

text \<open>
  \<open>TaskViewSet.get_queryset\<close>: the tasks joined with their roles and items, kept where
  \<open>roles__user = user\<close> or \<open>items__executor = user\<close>, and made distinct. The join
  yields a task once per matching role or item and \<open>distinct()\<close> collapses them, so the
  result is the task table filtered by the existence of such a role or item.
\<close>

definition get_queryset :: "db \<Rightarrow> User \<Rightarrow> Task list" where
  "get_queryset d u = filter (\<lambda>t. has_role d (task_pk t) u \<or> is_executor d (task_pk t) u) (tasks d)"

text \<open>
  Responses of the HTTP layer. \<open>list\<close> and \<open>get_object\<close> pass the queryset through
  the filter backend first; \<open>flt\<close> is the filter the query string selects
  (\<open>\<lambda>_. True\<close> without query parameters; every filter of filters.py narrows the
  queryset). \<open>get_object\<close> answers 404 when no row of the filtered queryset has the key,
  and 403 when a permission class refuses the object.
\<close>

datatype 'a response =
  HTTP_200 'a | HTTP_201 'a | HTTP_400 error | HTTP_403 | HTTP_404 | HTTP_500 error

definition list_tasks :: "(Task \<Rightarrow> bool) \<Rightarrow> db \<Rightarrow> request \<Rightarrow> Task list" where
  "list_tasks flt d rq = filter flt (get_queryset d (req_user rq))"

datatype deny = NotFound | Forbidden

definition get_object ::
  "(db \<Rightarrow> request \<Rightarrow> obj \<Rightarrow> bool) \<Rightarrow> (Task \<Rightarrow> bool) \<Rightarrow> db \<Rightarrow> request \<Rightarrow> pk \<Rightarrow> deny + Task" where
  "get_object perm flt d rq k =
     (case find (\<lambda>t. task_pk t = k) (filter flt (get_queryset d (req_user rq))) of
        None \<Rightarrow> Inl NotFound
      | Some t \<Rightarrow> if perm d rq (TaskObj t) then Inr t else Inl Forbidden)"

text \<open>\<open>retrieve\<close> runs under \<open>[IsAuthenticated(), IsTaskParticipant()]\<close>.\<close>

definition retrieve :: "(Task \<Rightarrow> bool) \<Rightarrow> db \<Rightarrow> request \<Rightarrow> pk \<Rightarrow> Task response" where
  "retrieve flt d rq k =
     (case get_object IsTaskParticipant flt d rq k of
        Inl NotFound \<Rightarrow> HTTP_404
      | Inl Forbidden \<Rightarrow> HTTP_403
      | Inr t \<Rightarrow> HTTP_200 t)"

section \<open>Completing a task (serializers.py, TaskUpdateSerializer)\<close>







text \<open>
  The fields of an update request after parsing; \<open>None\<close> is a field the partial update
  does not name. The status is a choice field: a value outside \<open>STATUS_CHOICES\<close> is
  refused before \<open>validate_status\<close> runs.
\<close>

record task_update =
  upd_title :: "string option"
  upd_description :: "string option"
  upd_status :: "string option"

definition invalid_choice :: "string \<Rightarrow> error" where
  "invalid_choice v = ValidationError ([CHR 0x22] @ v @ [CHR 0x22] @ '' is not a valid choice.'')"





section \<open>Roles (models.py, TaskRole; views.py, add_role)\<close>

definition assigner_exists_msg :: string where
  "assigner_exists_msg = map char_of
     [208, 163, 32, 208, 183, 208, 176, 208, 180, 208, 176, 209, 135, 208, 184, 32, 209, 131,
      208, 182, 208, 181, 32, 208, 181, 209, 129, 209, 130, 209, 140, 32, 208, 191, 208, 190,
      209, 129, 209, 130, 208, 176, 208, 189, 208, 190, 208, 178, 209, 137, 208, 184, 208, 186 :: nat]"

text \<open>
  \<open>TaskRole.clean\<close>. \<open>exclude(pk=self.pk)\<close> drops the row of the instance itself; for
  an instance that was never saved (\<open>pk = None\<close>) it drops nothing.
\<close>

definition TaskRole_clean :: "db \<Rightarrow> TaskRole \<Rightarrow> error + unit" where
  "TaskRole_clean d r =
     (if role r = ''assigner'' then
        (let existing_assigner =
               list_ex (\<lambda>x. role_task x = role_task r \<and> role x = ''assigner'' \<and> role_pk x \<noteq> role_pk r)
                 (roles d)
         in if existing_assigner then Inl (ValidationError assigner_exists_msg) else Inr ())
      else Inr ())"

definition ROLE_CHOICES :: "string list" where
  "ROLE_CHOICES = [''assigner'', ''co_executor'', ''observer'']"

definition role_pks :: "db \<Rightarrow> pk list" where
  "role_pks d = concat (map (\<lambda>x. case role_pk x of None \<Rightarrow> [] | Some k \<Rightarrow> [k]) (roles d))"

text \<open>
  \<open>Model.save\<close> for a \<open>TaskRole\<close> (the class does not override it): the store checks
  the foreign keys and \<open>unique_together = (task, user, role)\<close> and raises
  \<open>IntegrityError\<close> on a violation. \<open>Model.save\<close> does not call \<open>full_clean\<close>, so
  \<open>TaskRole.clean\<close> is not run here. \<open>objects.create\<close> builds the instance and saves it.
\<close>

definition Model_save_role :: "TaskRole \<Rightarrow> db \<Rightarrow> error + (TaskRole \<times> db)" where
  "Model_save_role r d =
     (if \<not> task_exists d (role_task r) \<or> \<not> user_exists d (role_user r) then Inl IntegrityError
      else if list_ex (\<lambda>x. role_task x = role_task r \<and> role_user x = role_user r
                          \<and> role x = role r \<and> role_pk x \<noteq> role_pk r) (roles d)
        then Inl IntegrityError
      else (case role_pk r of
              None \<Rightarrow>
                (let r' = r\<lparr>role_pk := Some (fresh_pk (role_pks d))\<rparr>
                 in Inr (r', d\<lparr>roles := roles d @ [r']\<rparr>))
            | Some k \<Rightarrow>
                if list_ex (\<lambda>x. role_pk x = Some k) (roles d)
                  then Inr (r, d\<lparr>roles := map (\<lambda>x. if role_pk x = Some k then r else x) (roles d)\<rparr>)
                else Inr (r, d\<lparr>roles := roles d @ [r]\<rparr>)))"

definition TaskRole_objects_create :: "pk \<Rightarrow> pk \<Rightarrow> string \<Rightarrow> db \<Rightarrow> error + (TaskRole \<times> db)" where
  "TaskRole_objects_create t u r d =
     Model_save_role \<lparr>role_pk = None, role_task = t, role_user = u, role = r\<rparr> d"

text \<open>
  The body of an add-role request after parsing (\<open>TaskRoleSerializer\<close>: \<open>user_id\<close> an
  integer, \<open>role\<close> a choice of \<open>ROLE_CHOICES\<close>). The serializer has no field \<open>task\<close>,
  so it carries no uniqueness validator, and a model serializer does not call the model's
  \<open>clean\<close>. \<open>TaskViewSet.add_role\<close> runs under \<open>[IsAuthenticated, IsAssigner]\<close>:
  \<open>get_object\<close>, then \<open>is_valid\<close>, then \<open>serializer.save(task=task)\<close>, which is
  \<open>TaskRole.objects.create\<close>. An \<open>IntegrityError\<close> is not caught by the view.
\<close>

record role_payload =
  p_user_id :: pk
  p_role :: string

definition add_role ::
  "(Task \<Rightarrow> bool) \<Rightarrow> db \<Rightarrow> request \<Rightarrow> pk \<Rightarrow> role_payload \<Rightarrow> TaskRole response \<times> db" where
  "add_role flt d rq k body =
     (case get_object IsAssigner flt d rq k of
        Inl NotFound \<Rightarrow> (HTTP_404, d)
      | Inl Forbidden \<Rightarrow> (HTTP_403, d)
      | Inr task \<Rightarrow>
          if p_role body \<in> set ROLE_CHOICES then
            (case TaskRole_objects_create (task_pk task) (p_user_id body) (p_role body) d of
               Inl e \<Rightarrow> (HTTP_500 e, d)
             | Inr (r, d') \<Rightarrow> (HTTP_201 r, d'))
          else (HTTP_400 (invalid_choice (p_role body)), d))"

definition get_req :: "User \<Rightarrow> request" where
  "get_req u = \<lparr>req_user = u, req_method = ''GET'', req_data = []\<rparr>"

definition post_req :: "User \<Rightarrow> (string \<times> json) list \<Rightarrow> request" where
  "post_req u body = \<lparr>req_user = u, req_method = ''POST'', req_data = body\<rparr>"

text \<open>The fixture \<open>task_with_items\<close>: a co-executor, an observer and three items.\<close>

definition co_executor_role2 :: TaskRole where
  "co_executor_role2 = \<lparr>role_pk = Some 2, role_task = 1, role_user = 2, role = ''co_executor''\<rparr>"

definition observer_role3 :: TaskRole where
  "observer_role3 = \<lparr>role_pk = Some 3, role_task = 1, role_user = 3, role = ''observer''\<rparr>"

definition item_todo :: TaskItem where
  "item_todo = \<lparr>item_pk = Some 1, item_task = 1, item_title = ''Task Item 1'',
                item_description = ''Description 1'', executor = Some 2, status = ''todo'',
                planned_hours = 8, order = 0, completed_at = None\<rparr>"

definition item_in_progress :: TaskItem where
  "item_in_progress = \<lparr>item_pk = Some 2, item_task = 1, item_title = ''Task Item 2'',
                item_description = ''Description 2'', executor = Some 2, status = ''in_progress'',
                planned_hours = 16, order = 1, completed_at = None\<rparr>"

definition item_completed :: TaskItem where
  "item_completed = \<lparr>item_pk = Some 3, item_task = 1, item_title = ''Task Item 3'',
                item_description = ''Description 3'', executor = Some 3, status = ''completed'',
                planned_hours = 4, order = 2, completed_at = Some 5\<rparr>"

definition db_with_items :: db where
  "db_with_items = \<lparr>users = [user1, user2, user3], tasks = [task1],
                    roles = [assigner_role1, co_executor_role2, observer_role3],
                    items = [item_todo, item_in_progress, item_completed], timelogs = []\<rparr>"

definition db_all_done :: db where
  "db_all_done = db_with_items\<lparr>items := [item_completed]\<rparr>"

definition only_status :: "string \<Rightarrow> task_update" where
  "only_status v = \<lparr>upd_title = None, upd_description = None, upd_status = Some v\<rparr>"

text \<open>A role instance, not yet saved, that makes user 2 a second assigner of task 1.\<close>

definition second_assigner :: TaskRole where
  "second_assigner = \<lparr>role_pk = None, role_task = 1, role_user = 2, role = ''assigner''\<rparr>"

section \<open>Task creation (serializers.py, TaskCreateSerializer.create)\<close>

text \<open>
  The validated data handed to \<open>create\<close>. A key that the request may leave out is an
  option: \<open>co_executors\<close>, \<open>observers\<close> and \<open>task_items\<close> are popped with the
  default \<open>[]\<close>, \<open>executor_id\<close> with the default \<open>None\<close>. An item definition is the
  validated dictionary of \<open>TaskItemSerializer\<close>; \<open>order\<close> is one of its writable
  fields, so the key may be present.
\<close>

record item_data =
  d_title :: string
  d_description :: "string option"
  d_executor_id :: "pk option"
  d_status :: "string option"
  d_planned_hours :: "rat option"
  d_order :: "nat option"

record task_data =
  c_title :: string
  c_description :: string
  c_co_executors :: "pk list option"
  c_observers :: "pk list option"
  c_task_items :: "item_data list option"

text \<open>
  A step of a transaction returns its result or the exception it raised, with the store
  as the step left it.
\<close>

type_synonym 'a tx = "db \<Rightarrow> (error + 'a) \<times> db"

text \<open>
  \<open>Task.objects.create(**validated_data)\<close>: the row gets the next key and the status
  takes its default.
\<close>

definition new_task :: "db \<Rightarrow> string \<Rightarrow> string \<Rightarrow> Task" where
  "new_task d ttl descr =
     \<lparr>task_pk = fresh_pk (map task_pk (tasks d)), task_title = ttl,
      task_description = descr, task_status = ''new''\<rparr>"

definition Task_objects_create :: "string \<Rightarrow> string \<Rightarrow> Task tx" where
  "Task_objects_create ttl descr d =
     (let t = new_task d ttl descr in (Inr t, d\<lparr>tasks := tasks d @ [t]\<rparr>))"

text \<open>\<open>validated_data.pop(key, [])\<close>\<close>

definition pop_list :: "'a list option \<Rightarrow> 'a list" where
  "pop_list x = (case x of None \<Rightarrow> [] | Some xs \<Rightarrow> xs)"

definition create_role :: "pk \<Rightarrow> string \<Rightarrow> pk \<Rightarrow> unit tx" where
  "create_role t r u d =
     (case TaskRole_objects_create t u r d of
        Inl e \<Rightarrow> (Inl e, d)
      | Inr (_, d') \<Rightarrow> (Inr (), d'))"

text \<open>\<open>for user_id in ...: TaskRole.objects.create(task=task, user_id=user_id, role=...)\<close>\<close>

fun create_roles :: "pk \<Rightarrow> string \<Rightarrow> pk list \<Rightarrow> unit tx" where
  "create_roles t r [] d = (Inr (), d)"
| "create_roles t r (u # us) d =
     (case create_role t r u d of
        (Inl e, d') \<Rightarrow> (Inl e, d')
      | (Inr _, d') \<Rightarrow> create_roles t r us d')"

text \<open>
  \<open>TaskItem.objects.create(task=task, executor_id=executor_id, order=idx, **item_data)\<close>.
  A definition that carries the key \<open>order\<close> passes the keyword twice and the call
  raises \<open>TypeError\<close>. Fields that the definition leaves out take the model's defaults.
  The save is \<open>TaskItem.save\<close>, at the time \<open>now\<close>.
\<close>

definition new_item :: "pk \<Rightarrow> nat \<Rightarrow> item_data \<Rightarrow> TaskItem" where
  "new_item t idx it =
     \<lparr>item_pk = None, item_task = t, item_title = d_title it,
      item_description = (case d_description it of None \<Rightarrow> [] | Some x \<Rightarrow> x),
      executor = d_executor_id it,
      status = (case d_status it of None \<Rightarrow> ''todo'' | Some x \<Rightarrow> x),
      planned_hours = (case d_planned_hours it of None \<Rightarrow> 0 | Some x \<Rightarrow> x),
      order = idx, completed_at = None\<rparr>"

definition create_item :: "datetime \<Rightarrow> pk \<Rightarrow> nat \<Rightarrow> item_data \<Rightarrow> unit tx" where
  "create_item now t idx it d =
     (if d_order it \<noteq> None then (Inl TypeError, d)
      else (case TaskItem_save now (new_item t idx it) d of
              Inl e \<Rightarrow> (Inl e, d)
            | Inr (_, d') \<Rightarrow> (Inr (), d')))"

text \<open>
  \<open>for idx, item_data in enumerate(task_items_data)\<close>; \<open>clock idx\<close> is the time of
  the save of item \<open>idx\<close>.
\<close>

fun create_items :: "(nat \<Rightarrow> datetime) \<Rightarrow> pk \<Rightarrow> nat \<Rightarrow> item_data list \<Rightarrow> unit tx" where
  "create_items clock t idx [] d = (Inr (), d)"
| "create_items clock t idx (it # its) d =
     (case create_item (clock idx) t idx it d of
        (Inl e, d') \<Rightarrow> (Inl e, d')
      | (Inr _, d') \<Rightarrow> create_items clock t (Suc idx) its d')"

text \<open>The body of \<open>create\<close>; \<open>user\<close> is \<open>self.context['request'].user\<close>.\<close>

definition create_body :: "(nat \<Rightarrow> datetime) \<Rightarrow> User \<Rightarrow> task_data \<Rightarrow> Task tx" where
  "create_body clock user v d =
     (let co_executors = pop_list (c_co_executors v);
          observers = pop_list (c_observers v);
          task_items_data = pop_list (c_task_items v)
      in case Task_objects_create (c_title v) (c_description v) d of
           (Inl e, d1) \<Rightarrow> (Inl e, d1)
         | (Inr task, d1) \<Rightarrow>
        (case create_role (task_pk task) ''assigner'' (user_pk user) d1 of
           (Inl e, d2) \<Rightarrow> (Inl e, d2)
         | (Inr _, d2) \<Rightarrow>
        (case create_roles (task_pk task) ''co_executor'' co_executors d2 of
           (Inl e, d3) \<Rightarrow> (Inl e, d3)
         | (Inr _, d3) \<Rightarrow>
        (case create_roles (task_pk task) ''observer'' observers d3 of
           (Inl e, d4) \<Rightarrow> (Inl e, d4)
         | (Inr _, d4) \<Rightarrow>
        (case create_items clock (task_pk task) 0 task_items_data d4 of
           (Inl e, d5) \<Rightarrow> (Inl e, d5)
         | (Inr _, d5) \<Rightarrow> (Inr task, d5))))))"

text \<open>
  \<open>@transaction.atomic\<close>: when the body raises, the store is rolled back to what it
  was on entry and the exception goes on to the caller.
\<close>

definition atomic :: "'a tx \<Rightarrow> 'a tx" where
  "atomic body d = (case body d of (Inl e, _) \<Rightarrow> (Inl e, d) | (Inr v, d') \<Rightarrow> (Inr v, d'))"

definition TaskCreateSerializer_create :: "(nat \<Rightarrow> datetime) \<Rightarrow> User \<Rightarrow> task_data \<Rightarrow> Task tx" where
  "TaskCreateSerializer_create clock user v = atomic (create_body clock user v)"

text \<open>The executor of an item definition is absent or an existing user.\<close>

definition executor_ok :: "db \<Rightarrow> item_data \<Rightarrow> bool" where
  "executor_ok d it = (case d_executor_id it of None \<Rightarrow> True | Some u \<Rightarrow> user_exists d u)"

text \<open>What a role row and an item row say, without their primary keys.\<close>

definition role_triple :: "TaskRole \<Rightarrow> pk \<times> pk \<times> string" where
  "role_triple r = (role_task r, role_user r, role r)"

definition item_facts :: "TaskItem \<Rightarrow> pk \<times> string \<times> pk option \<times> nat" where
  "item_facts i = (item_task i, item_title i, executor i, order i)"

text \<open>A store of four users and nothing else, and a creation request of user 1.\<close>

definition user4 :: User where "user4 = \<lparr>user_pk = 4, is_staff = False\<rparr>"

definition db0 :: db where
  "db0 = \<lparr>users = [user1, user2, user3, user4], tasks = [], roles = [], items = [],
          timelogs = []\<rparr>"

definition item_def :: "string \<Rightarrow> pk \<Rightarrow> item_data" where
  "item_def ttl ex = \<lparr>d_title = ttl, d_description = None, d_executor_id = Some ex,
                       d_status = None, d_planned_hours = None, d_order = None\<rparr>"

definition complex_task :: task_data where
  "complex_task = \<lparr>c_title = ''Complex Task'', c_description = ''Complex Description'',
                    c_co_executors = Some [2, 3], c_observers = Some [4],
                    c_task_items = Some [item_def ''Item 1'' 2, item_def ''Item 2'' 3]\<rparr>"

text \<open>
  The same request with a second item whose executor id no user has, and a clock that
  stands at 7.
\<close>

definition bad_task :: task_data where
  "bad_task = complex_task\<lparr>c_task_items := Some [item_def ''Item 1'' 2, item_def ''Item 2'' 9]\<rparr>"

definition clock7 :: "nat \<Rightarrow> datetime" where
  "clock7 i = 7"

section \<open>Progress of a task (models.py, Task.progress_percentage)\<close>

text \<open>
  Python floats are IEEE 754 binary64 numbers; a finite float is modelled by the rational
  it denotes. \<open>fl\<close> rounds a rational to the nearest float, ties to the even
  significand: the significand has 53 bits, so the spacing of the floats around \<open>x\<close>
  is \<open>2 ^ (\<lfloor>log\<^sub>2 |x|\<rfloor> - 52)\<close>, and never less than \<open>2 ^ -1074\<close>. Overflow is not
  modelled: every value below is at most 100.
\<close>

definition pow2 :: "int \<Rightarrow> rat" where
  "pow2 k = (if 0 \<le> k then 2 ^ nat k else 1 / 2 ^ nat (- k))"

text \<open>\<open>\<lfloor>log\<^sub>2 x\<rfloor>\<close> for a positive rational, from the bit lengths of numerator and denominator.\<close>

definition ilog2 :: "rat \<Rightarrow> int" where
  "ilog2 x = (let (p, q) = quotient_of x; e = bitlen p - bitlen q
              in if pow2 e \<le> x then e else e - 1)"

definition round_half_even :: "rat \<Rightarrow> int" where
  "round_half_even x =
     (let f = \<lfloor>x\<rfloor>; r = x - of_int f
      in if r < 1 / 2 then f else if 1 / 2 < r then f + 1 else if even f then f else f + 1)"

definition fl :: "rat \<Rightarrow> rat" where
  "fl x = (if x = 0 then 0
           else (let e = max (ilog2 \<bar>x\<bar> - 52) (- 1074)
                 in of_int (round_half_even (x / pow2 e)) * pow2 e))"

text \<open>
  \<open>a / b\<close> on integers is the correctly rounded quotient, \<open>x * y\<close> on floats the
  correctly rounded product, and \<open>round(x, 2)\<close> the float nearest to the two-place
  decimal nearest to \<open>x\<close>, an exact tie going to the even last digit.
\<close>

definition true_div :: "nat \<Rightarrow> nat \<Rightarrow> rat" where
  "true_div a b = fl (of_nat a / of_nat b)"

definition float_mul :: "rat \<Rightarrow> rat \<Rightarrow> rat" where
  "float_mul x y = fl (x * y)"

definition py_round2 :: "rat \<Rightarrow> rat" where
  "py_round2 x = fl (of_int (round_half_even (x * 100)) / 100)"

datatype pynum = PyInt int | PyFloat rat

text \<open>
  \<open>Task.progress_percentage\<close>; \<open>self.items.all()\<close> is the list of the task's items,
  which is falsy when empty.
\<close>

definition task_items :: "db \<Rightarrow> Task \<Rightarrow> TaskItem list" where
  "task_items d t = filter (\<lambda>i. item_task i = task_pk t) (items d)"

definition progress_percentage :: "db \<Rightarrow> Task \<Rightarrow> pynum" where
  "progress_percentage d t =
     (let its = task_items d t
      in if its = [] then PyInt 0
         else (let completed = length (filter (\<lambda>i. status i = ''completed'') its)
               in PyFloat (py_round2 (float_mul (true_div completed (length its)) 100))))"

text \<open>
  The rounding the specification names: half-up to two decimal places, of the exact
  quotient.
\<close>

definition round_half_up2 :: "rat \<Rightarrow> rat" where
  "round_half_up2 x = of_int \<lfloor>x * 100 + 1 / 2\<rfloor> / 100"

definition spec_progress :: "nat \<Rightarrow> nat \<Rightarrow> rat" where
  "spec_progress c n = round_half_up2 (100 * of_nat c / of_nat n)"

text \<open>Stores whose task 1 has items completed, completed, todo, and 1 completed item of 32.\<close>

definition db_two_of_three :: db where
  "db_two_of_three =
     db1\<lparr>items := [item_completed\<lparr>item_pk := Some 1\<rparr>, item_completed\<lparr>item_pk := Some 2\<rparr>,
                   item_todo\<lparr>item_pk := Some 3\<rparr>]\<rparr>"

definition db_one_of_32 :: db where
  "db_one_of_32 =
     db1\<lparr>items := item_completed\<lparr>item_pk := Some 1\<rparr>
                    # map (\<lambda>k. item_todo\<lparr>item_pk := Some k\<rparr>) [2 ..< 33]\<rparr>"

section \<open>Time logs (apps/timelogs/models.py, TimeLog)\<close>




definition min_hours_limit :: rat where
  "min_hours_limit = 5764607523034235 / 576460752303423488"













section \<open>Executors may write the status field only\<close>

lemmas fixture_defs =
  user1_def user2_def user3_def task1_def assigner_role1_def task_item1_def db1_def patch_def get_req_def post_req_def
  co_executor_role2_def observer_role3_def item_todo_def item_in_progress_def item_completed_def
  db_with_items_def db_all_done_def only_status_def


text \<open>
  C2. For an actor who is the item's executor, not staff and not the task's assigner, a
  PATCH or PUT passes the item-mutation check exactly when the request's field set is a
  subset of {status}: a request naming any other field is denied even when status is
  named too, and a request naming only status is permitted.
\<close>

theorem executor_write_iff_status_only:
  assumes "\<not> is_staff (req_user rq)"
    and "\<not> is_assigner d (item_task obj) (req_user rq)"
    and "executor obj = Some (user_pk (req_user rq))"
    and "req_method rq = ''PATCH'' \<or> req_method rq = ''PUT''"
  shows "item_executor_or_assigner d rq obj = (update_fields rq \<subseteq> {''status''})
       \<and> ((\<exists>f \<in> update_fields rq. f \<noteq> ''status'') \<longrightarrow> \<not> item_executor_or_assigner d rq obj)
       \<and> (update_fields rq = {''status''} \<longrightarrow> item_executor_or_assigner d rq obj)"
  using assms by (auto simp: item_executor_or_assigner_def allowed_fields_def)

text \<open>
  The executor of the fixture item (user 2) patches title and status together and is
  denied; patching status alone is permitted.
\<close>

theorem executor_write_iff_status_only_witness:
  "\<not> is_staff (req_user (patch user2 [(''title'', JStr ''New Title''), (''status'', JStr ''in_progress'')]))
   \<and> \<not> is_assigner db1 (item_task task_item1) user2
   \<and> executor task_item1 = Some (user_pk user2)
   \<and> \<not> item_executor_or_assigner db1
         (patch user2 [(''title'', JStr ''New Title''), (''status'', JStr ''in_progress'')]) task_item1
   \<and> item_executor_or_assigner db1 (patch user2 [(''status'', JStr ''in_progress'')]) task_item1"
  using executor_write_iff_status_only
          [of "patch user2 [(''title'', JStr ''New Title''), (''status'', JStr ''in_progress'')]"
              db1 task_item1]
        executor_write_iff_status_only
          [of "patch user2 [(''status'', JStr ''in_progress'')]" db1 task_item1]
  by (simp add: fixture_defs is_assigner_def update_fields_def)

text \<open>
  C9. A PATCH or PUT by the item's executor (not staff, not assigner) whose body has no
  fields at all passes the item-mutation check: the empty field set is a subset of
  {status}.
\<close>

theorem executor_empty_body_permitted:
  assumes "\<not> is_staff (req_user rq)"
    and "\<not> is_assigner d (item_task obj) (req_user rq)"
    and "executor obj = Some (user_pk (req_user rq))"
    and "req_method rq = ''PATCH'' \<or> req_method rq = ''PUT''"
    and "req_data rq = []"
  shows "item_executor_or_assigner d rq obj"
  using assms by (auto simp: item_executor_or_assigner_def update_fields_def)

theorem executor_empty_body_permitted_witness:
  "\<not> is_staff (req_user (patch user2 []))
   \<and> \<not> is_assigner db1 (item_task task_item1) (req_user (patch user2 []))
   \<and> executor task_item1 = Some (user_pk (req_user (patch user2 [])))
   \<and> req_method (patch user2 []) = ''PATCH''
   \<and> req_data (patch user2 []) = []
   \<and> item_executor_or_assigner db1 (patch user2 []) task_item1"
  using executor_empty_body_permitted [of "patch user2 []" db1 task_item1]
  by (simp add: fixture_defs is_assigner_def)

section \<open>Completion timestamps\<close>



lemma Model_save_item_row:
  assumes "Model_save_item it d = Inr (it', d')"
  shows "it' \<in> set (items d')" and "it' = it\<lparr>item_pk := item_pk it'\<rparr>"
    and "set (items d') \<subseteq> insert it' (set (items d))"
  using assms
  by (auto simp: Model_save_item_def Let_def list_ex_iff
           split: if_splits option.splits)





text \<open>
  C10. Saving an item that is already completed and already has a completion timestamp
  keeps that timestamp: the save does not refresh it to the current time, so saving
  again changes nothing in \<open>completed_at\<close>.
\<close>

theorem resave_keeps_completed_at:
  assumes "status it = ''completed''" and "completed_at it = Some t"
    and "TaskItem_save now it d = Inr (it', d')"
  shows "completed_at it' = Some t \<and> set_completed_at now it = it"
proof -
  have same: "set_completed_at now it = it"
    using assms(1,2) by (simp add: set_completed_at_def)
  from assms(3) have "Model_save_item it d = Inr (it', d')"
    by (simp add: TaskItem_save_def same)
  from Model_save_item_row(2) [OF this] have "completed_at it' = completed_at it"
    by (metis TaskItem.select_convs(9) TaskItem.surjective TaskItem.update_convs(1))
  with assms(2) same show ?thesis by simp
qed

theorem resave_keeps_completed_at_witness:
  "status (task_item1\<lparr>status := ''completed'', completed_at := Some 7\<rparr>) = ''completed''
   \<and> TaskItem_save 9 (task_item1\<lparr>status := ''completed'', completed_at := Some 7\<rparr>) db1
       = Inr (task_item1\<lparr>status := ''completed'', completed_at := Some 7\<rparr>,
              db1\<lparr>items := [task_item1\<lparr>status := ''completed'', completed_at := Some 7\<rparr>]\<rparr>)
   \<and> completed_at (task_item1\<lparr>status := ''completed'', completed_at := Some 7\<rparr>) = Some 7"
  using resave_keeps_completed_at
          [of "task_item1\<lparr>status := ''completed'', completed_at := Some 7\<rparr>" 7 9 db1
              "task_item1\<lparr>status := ''completed'', completed_at := Some 7\<rparr>"
              "db1\<lparr>items := [task_item1\<lparr>status := ''completed'', completed_at := Some 7\<rparr>]\<rparr>"]
  by (simp add: fixture_defs TaskItem_save_def Model_save_item_def set_completed_at_def
                task_exists_def user_exists_def)

section \<open>Tasks are hidden from non-participants\<close>

lemma get_queryset_iff:
  "t \<in> set (get_queryset d u) \<longleftrightarrow>
     t \<in> set (tasks d) \<and> (has_role d (task_pk t) u \<or> is_executor d (task_pk t) u)"
  by (auto simp: get_queryset_def)

lemma find_by_pk:
  assumes "distinct (map task_pk ts)" and "t \<in> set ts"
  shows "find (\<lambda>x. task_pk x = task_pk t) ts = Some t"
  using assms by (induction ts) (auto simp: image_iff)

lemma find_none_by_pk:
  assumes "\<forall>x \<in> set ts. task_pk x \<noteq> k"
  shows "find (\<lambda>x. task_pk x = k) ts = None"
  using assms by (induction ts) auto

lemma retrieve_not_403: "retrieve flt d rq k \<noteq> HTTP_403"
proof (cases "find (\<lambda>t. task_pk t = k) (filter flt (get_queryset d (req_user rq)))")
  case None
  then show ?thesis by (simp add: retrieve_def get_object_def)
next
  case (Some t)
  then have "t \<in> set (get_queryset d (req_user rq))"
    by (auto simp: find_Some_iff in_set_conv_nth dest: nth_mem)
  then have "IsTaskParticipant d rq (TaskObj t)"
    by (auto simp: get_queryset_iff)
  with Some show ?thesis by (simp add: retrieve_def get_object_def)
qed

text \<open>
  C7. A task on which the user holds no role and of whose items the user executes none
  is left out of the list and its retrieval answers 404 (not found), never 403; a task
  is in the user's queryset exactly when the user holds a role on it or executes one of
  its items, and such a task is retrieved. The queryset does not look at the staff flag,
  so this holds for staff and non-staff users alike. Primary keys are unique in the store.
\<close>

theorem task_visible_iff_participant:
  assumes "distinct (map task_pk (tasks d))" and "t \<in> set (tasks d)"
  shows "(t \<in> set (get_queryset d (req_user rq)))
           = (has_role d (task_pk t) (req_user rq) \<or> is_executor d (task_pk t) (req_user rq))
       \<and> (\<not> has_role d (task_pk t) (req_user rq) \<and> \<not> is_executor d (task_pk t) (req_user rq)
            \<longrightarrow> t \<notin> set (list_tasks flt d rq) \<and> retrieve flt d rq (task_pk t) = HTTP_404)
       \<and> (has_role d (task_pk t) (req_user rq) \<or> is_executor d (task_pk t) (req_user rq)
            \<longrightarrow> t \<in> set (list_tasks (\<lambda>_. True) d rq)
                \<and> retrieve (\<lambda>_. True) d rq (task_pk t) = HTTP_200 t)
       \<and> retrieve flt d rq k \<noteq> HTTP_403"
proof (intro conjI impI)
  show "(t \<in> set (get_queryset d (req_user rq)))
          = (has_role d (task_pk t) (req_user rq) \<or> is_executor d (task_pk t) (req_user rq))"
    using assms(2) by (simp add: get_queryset_iff)
next
  assume hid: "\<not> has_role d (task_pk t) (req_user rq) \<and> \<not> is_executor d (task_pk t) (req_user rq)"
  show "t \<notin> set (list_tasks flt d rq)"
    using hid by (simp add: list_tasks_def get_queryset_iff)
  have "\<forall>x \<in> set (filter flt (get_queryset d (req_user rq))). task_pk x \<noteq> task_pk t"
  proof
    fix x assume x: "x \<in> set (filter flt (get_queryset d (req_user rq)))"
    then have xin: "x \<in> set (tasks d)"
      and xv: "has_role d (task_pk x) (req_user rq) \<or> is_executor d (task_pk x) (req_user rq)"
      by (auto simp: get_queryset_iff)
    show "task_pk x \<noteq> task_pk t"
      using xv hid by auto
  qed
  from find_none_by_pk [OF this]
  show "retrieve flt d rq (task_pk t) = HTTP_404"
    by (simp add: retrieve_def get_object_def)
next
  assume vis: "has_role d (task_pk t) (req_user rq) \<or> is_executor d (task_pk t) (req_user rq)"
  then have tin: "t \<in> set (get_queryset d (req_user rq))"
    using assms(2) by (simp add: get_queryset_iff)
  then show "t \<in> set (list_tasks (\<lambda>_. True) d rq)"
    by (simp add: list_tasks_def)
  have "distinct (map task_pk (get_queryset d (req_user rq)))"
    using assms(1) by (simp add: get_queryset_def distinct_map_filter)
  from find_by_pk [OF this tin] vis
  show "retrieve (\<lambda>_. True) d rq (task_pk t) = HTTP_200 t"
    by (auto simp: retrieve_def get_object_def)
next
  show "retrieve flt d rq k \<noteq> HTTP_403"
    by (rule retrieve_not_403)
qed

text \<open>
  In the fixture store, user 3 has no role on task 1 and executes none of its items:
  the list is empty and the retrieval answers 404. User 1, the assigner, retrieves it.
\<close>

theorem task_visible_iff_participant_witness:
  "distinct (map task_pk (tasks db1)) \<and> task1 \<in> set (tasks db1)
   \<and> \<not> is_staff user3
   \<and> \<not> has_role db1 (task_pk task1) user3 \<and> \<not> is_executor db1 (task_pk task1) user3
   \<and> list_tasks (\<lambda>_. True) db1 (get_req user3) = []
   \<and> retrieve (\<lambda>_. True) db1 (get_req user3) (task_pk task1) = HTTP_404
   \<and> has_role db1 (task_pk task1) user1
   \<and> retrieve (\<lambda>_. True) db1 (get_req user1) (task_pk task1) = HTTP_200 task1"
  using task_visible_iff_participant [of db1 task1 "get_req user3" "\<lambda>_. True" 1]
        task_visible_iff_participant [of db1 task1 "get_req user1" "\<lambda>_. True" 1]
  by (simp add: fixture_defs has_role_def is_executor_def list_tasks_def get_queryset_def)

section \<open>A task is completed only after its items\<close>








section \<open>One assigner per task\<close>

text \<open>
  \<open>TaskRole.clean\<close> itself refuses a second assigner, whoever the user is, and leaves
  the instance's own row out of the check.
\<close>

lemma TaskRole_clean_rejects_second_assigner:
  assumes "role r = ''assigner''" and "x \<in> set (roles d)"
    and "role_task x = role_task r" and "role x = ''assigner''" and "role_pk x \<noteq> role_pk r"
  shows "TaskRole_clean d r = Inl (ValidationError assigner_exists_msg)"
  using assms by (auto simp: TaskRole_clean_def list_ex_iff)

lemma TaskRole_clean_excludes_self:
  assumes "\<forall>x \<in> set (roles d). role_task x = role_task r \<and> role x = ''assigner''
             \<longrightarrow> role_pk x = role_pk r"
  shows "TaskRole_clean d r = Inr ()"
  using assms by (auto simp: TaskRole_clean_def list_ex_iff)

text \<open>
  C1. The claim is that a second assigner role on a task is refused with a validation
  failure and not persisted, also through the add-role operation. \<open>TaskRole.clean\<close>
  does refuse it, but the add-role operation never runs \<open>clean\<close>: in the fixture store,
  where user 1 is the assigner of task 1, the assigner's request to add user 2 as
  assigner answers 201 and the store then holds two assigner roles for task 1.
\<close>

theorem add_role_second_assigner_persisted:
  "TaskRole_clean db1 second_assigner = Inl (ValidationError assigner_exists_msg)
   \<and> add_role (\<lambda>_. True) db1
        (post_req user1 [(''user_id'', JNum 2), (''role'', JStr ''assigner'')]) 1
        \<lparr>p_user_id = 2, p_role = ''assigner''\<rparr>
      = (HTTP_201 (second_assigner\<lparr>role_pk := Some 2\<rparr>),
         db1\<lparr>roles := [assigner_role1, second_assigner\<lparr>role_pk := Some 2\<rparr>]\<rparr>)
   \<and> length (filter (\<lambda>r. role_task r = 1 \<and> role r = ''assigner'')
        (roles (snd (add_role (\<lambda>_. True) db1
           (post_req user1 [(''user_id'', JNum 2), (''role'', JStr ''assigner'')]) 1
           \<lparr>p_user_id = 2, p_role = ''assigner''\<rparr>)))) = 2"
  by (simp add: fixture_defs second_assigner_def TaskRole_clean_def add_role_def get_object_def
        get_queryset_def has_role_def is_executor_def is_assigner_def ROLE_CHOICES_def
        TaskRole_objects_create_def Model_save_role_def task_exists_def user_exists_def
        fresh_pk_def role_pks_def Let_def)

section \<open>Task creation is all or nothing\<close>

lemma fold_max_ge: "a \<le> fold max ks (a::nat)"
proof (induction ks arbitrary: a)
  case Nil
  show ?case by simp
next
  case (Cons k ks)
  have "a \<le> max k a" by simp
  also have "\<dots> \<le> fold max ks (max k a)" by (rule Cons.IH)
  finally show ?case by simp
qed

lemma fold_max_mem: "x \<in> set ks \<Longrightarrow> x \<le> fold max ks (a::nat)"
proof (induction ks arbitrary: a)
  case Nil
  then show ?case by simp
next
  case (Cons k ks)
  show ?case
  proof (cases "x = k")
    case True
    have "k \<le> max k a" by simp
    also have "\<dots> \<le> fold max ks (max k a)" by (rule fold_max_ge)
    finally show ?thesis using True by simp
  next
    case False
    with Cons show ?thesis by simp
  qed
qed

lemma fresh_pk_notin: "fresh_pk ks \<notin> set ks"
  using fold_max_mem [of "fresh_pk ks" ks 0] by (auto simp: fresh_pk_def)

lemma create_role_ok:
  assumes "task_exists d t" and "user_exists d u"
    and "(t, u, r) \<notin> set (map role_triple (roles d))"
  shows "\<exists>d'. create_role t r u d = (Inr (), d') \<and> users d' = users d \<and> tasks d' = tasks d
            \<and> items d' = items d
            \<and> map role_triple (roles d') = map role_triple (roles d) @ [(t, u, r)]"
proof -
  have "\<not> list_ex (\<lambda>x. role_task x = t \<and> role_user x = u \<and> role x = r \<and> role_pk x \<noteq> None) (roles d)"
    using assms(3) by (auto simp: list_ex_iff role_triple_def image_iff)
  then show ?thesis
    using assms(1,2)
    by (simp add: create_role_def TaskRole_objects_create_def Model_save_role_def Let_def
                  role_triple_def)
qed

lemma create_roles_ok:
  assumes "task_exists d t" and "\<forall>u \<in> set us. user_exists d u" and "distinct us"
    and "\<forall>u \<in> set us. (t, u, r) \<notin> set (map role_triple (roles d))"
  shows "\<exists>d'. create_roles t r us d = (Inr (), d') \<and> users d' = users d \<and> tasks d' = tasks d
            \<and> items d' = items d
            \<and> map role_triple (roles d') = map role_triple (roles d) @ map (\<lambda>u. (t, u, r)) us"
  using assms
proof (induction us arbitrary: d)
  case Nil
  then show ?case by simp
next
  case (Cons u us)
  from create_role_ok [of d t u r] Cons.prems
  obtain d1 where s1: "create_role t r u d = (Inr (), d1)" and u1: "users d1 = users d"
    and t1: "tasks d1 = tasks d" and i1: "items d1 = items d"
    and r1: "map role_triple (roles d1) = map role_triple (roles d) @ [(t, u, r)]"
    by auto
  have "task_exists d1 t" using Cons.prems(1) t1 by (simp add: task_exists_def)
  moreover have "\<forall>v \<in> set us. user_exists d1 v"
    using Cons.prems(2) u1 by (simp add: user_exists_def)
  moreover have "distinct us" using Cons.prems(3) by simp
  moreover have "\<forall>v \<in> set us. (t, v, r) \<notin> set (map role_triple (roles d1))"
    using Cons.prems(3,4) r1 by auto
  ultimately obtain d' where s2: "create_roles t r us d1 = (Inr (), d')"
    and u2: "users d' = users d1" and t2: "tasks d' = tasks d1" and i2: "items d' = items d1"
    and r2: "map role_triple (roles d') = map role_triple (roles d1) @ map (\<lambda>u. (t, u, r)) us"
    using Cons.IH [of d1] by blast
  show ?case
    using s1 s2 u1 u2 t1 t2 i1 i2 r1 r2 by simp
qed

lemma create_item_ok:
  assumes "task_exists d t" and "d_order it = None" and "executor_ok d it"
  shows "\<exists>d'. create_item now t idx it d = (Inr (), d') \<and> users d' = users d \<and> tasks d' = tasks d
            \<and> roles d' = roles d
            \<and> map item_facts (items d') = map item_facts (items d) @ [(t, d_title it, d_executor_id it, idx)]"
  using assms
  by (auto simp: create_item_def TaskItem_save_def Model_save_item_def Let_def new_item_def
                set_completed_at_def item_facts_def executor_ok_def split: option.splits)

lemma create_items_ok:
  assumes "task_exists d t" and "\<forall>it \<in> set its. d_order it = None \<and> executor_ok d it"
  shows "\<exists>d'. create_items clock t idx its d = (Inr (), d') \<and> users d' = users d \<and> tasks d' = tasks d
            \<and> roles d' = roles d
            \<and> map item_facts (items d')
                = map item_facts (items d)
                  @ map (\<lambda>(i, it). (t, d_title it, d_executor_id it, i)) (enumerate idx its)"
  using assms
proof (induction its arbitrary: d idx)
  case Nil
  then show ?case by simp
next
  case (Cons it its)
  from create_item_ok [of d t it "clock idx" idx] Cons.prems
  obtain d1 where s1: "create_item (clock idx) t idx it d = (Inr (), d1)" and u1: "users d1 = users d"
    and t1: "tasks d1 = tasks d" and r1: "roles d1 = roles d"
    and i1: "map item_facts (items d1) = map item_facts (items d) @ [(t, d_title it, d_executor_id it, idx)]"
    by auto
  have "task_exists d1 t" using Cons.prems(1) t1 by (simp add: task_exists_def)
  moreover have "\<And>x. executor_ok d1 x = executor_ok d x"
    by (simp add: executor_ok_def user_exists_def u1 split: option.splits)
  then have "\<forall>x \<in> set its. d_order x = None \<and> executor_ok d1 x"
    using Cons.prems(2) by simp
  ultimately obtain d' where s2: "create_items clock t (Suc idx) its d1 = (Inr (), d')"
    and u2: "users d' = users d1" and t2: "tasks d' = tasks d1" and r2: "roles d' = roles d1"
    and i2: "map item_facts (items d')
                = map item_facts (items d1)
                  @ map (\<lambda>(i, it). (t, d_title it, d_executor_id it, i)) (enumerate (Suc idx) its)"
    using Cons.IH [of d1 "Suc idx"] by blast
  show ?case
    using s1 s2 u1 u2 t1 t2 r1 r2 i1 i2 by simp
qed

lemma atomic_rollback: "atomic body d = (Inl e, d') \<Longrightarrow> d' = d"
  by (auto simp: atomic_def split: prod.splits sum.splits)

lemma creation_succeeds:
  assumes req: "user_exists d (user_pk user)"
    and ref: "\<forall>r \<in> set (roles d). task_exists d (role_task r)"
    and co: "\<forall>u \<in> set co. user_exists d u" "distinct co"
    and obs: "\<forall>u \<in> set obs. user_exists d u" "distinct obs"
    and its: "\<forall>it \<in> set its. d_order it = None \<and> executor_ok d it"
    and v: "pop_list (c_co_executors v) = co" "pop_list (c_observers v) = obs"
      "pop_list (c_task_items v) = its"
    and k: "k = fresh_pk (map task_pk (tasks d))"
    and t: "task = new_task d (c_title v) (c_description v)"
  shows "\<exists>d'. create_body clock user v d = (Inr task, d')
           \<and> users d' = users d \<and> tasks d' = tasks d @ [task]
           \<and> map role_triple (roles d')
               = map role_triple (roles d) @ (k, user_pk user, ''assigner'')
                   # map (\<lambda>u. (k, u, ''co_executor'')) co @ map (\<lambda>u. (k, u, ''observer'')) obs
           \<and> map item_facts (items d')
               = map item_facts (items d)
                   @ map (\<lambda>(i, it). (k, d_title it, d_executor_id it, i)) (enumerate 0 its)"
proof -
  define d1 where "d1 = d\<lparr>tasks := tasks d @ [task]\<rparr>"
  have s0: "Task_objects_create (c_title v) (c_description v) d = (Inr task, d1)"
    by (simp add: Task_objects_create_def Let_def d1_def t)
  have tk: "task_pk task = k" by (simp add: t k new_task_def)
  have te: "task_exists d1 k"
    by (simp add: task_exists_def d1_def tk)
  have ue: "\<And>u. user_exists d1 u = user_exists d u"
    by (simp add: user_exists_def d1_def)
  have knew: "\<not> task_exists d k"
    using fresh_pk_notin [of "map task_pk (tasks d)"]
    by (auto simp: task_exists_def list_ex_iff k image_iff)
  have old: "\<And>u r. (k, u, r) \<notin> set (map role_triple (roles d))"
    using ref knew by (auto simp: role_triple_def)
  have r1eq: "roles d1 = roles d" by (simp add: d1_def)
  from create_role_ok [of d1 k "user_pk user" "''assigner''"] te req ue old r1eq
  obtain d2 where s2: "create_role k ''assigner'' (user_pk user) d1 = (Inr (), d2)"
    and u2: "users d2 = users d1" and t2: "tasks d2 = tasks d1" and i2: "items d2 = items d1"
    and r2: "map role_triple (roles d2) = map role_triple (roles d) @ [(k, user_pk user, ''assigner'')]"
    by auto
  have te2: "task_exists d2 k" using te t2 by (simp add: task_exists_def)
  have ue2: "\<And>u. user_exists d2 u = user_exists d u"
    using ue u2 by (simp add: user_exists_def)
  have "\<forall>u \<in> set co. (k, u, ''co_executor'') \<notin> set (map role_triple (roles d2))"
    using old by (simp add: r2)
  from create_roles_ok [of d2 k co "''co_executor''"] te2 co ue2 this
  obtain d3 where s3: "create_roles k ''co_executor'' co d2 = (Inr (), d3)"
    and u3: "users d3 = users d2" and t3: "tasks d3 = tasks d2" and i3: "items d3 = items d2"
    and r3: "map role_triple (roles d3)
               = map role_triple (roles d2) @ map (\<lambda>u. (k, u, ''co_executor'')) co"
    by auto
  have te3: "task_exists d3 k" using te2 t3 by (simp add: task_exists_def)
  have ue3: "\<And>u. user_exists d3 u = user_exists d u"
    using ue2 u3 by (simp add: user_exists_def)
  have "\<forall>u \<in> set obs. (k, u, ''observer'') \<notin> set (map role_triple (roles d3))"
    using old by (auto simp: r3 r2)
  from create_roles_ok [of d3 k obs "''observer''"] te3 obs ue3 this
  obtain d4 where s4: "create_roles k ''observer'' obs d3 = (Inr (), d4)"
    and u4: "users d4 = users d3" and t4: "tasks d4 = tasks d3" and i4: "items d4 = items d3"
    and r4: "map role_triple (roles d4)
               = map role_triple (roles d3) @ map (\<lambda>u. (k, u, ''observer'')) obs"
    by auto
  have te4: "task_exists d4 k" using te3 t4 by (simp add: task_exists_def)
  have ue4: "\<And>u. user_exists d4 u = user_exists d u"
    using ue3 u4 by (simp add: user_exists_def)
  have "\<And>x. executor_ok d4 x = executor_ok d x"
    by (simp add: executor_ok_def ue4 split: option.splits)
  then have "\<forall>it \<in> set its. d_order it = None \<and> executor_ok d4 it"
    using its by simp
  from create_items_ok [of d4 k its clock 0] te4 this
  obtain d5 where s5: "create_items clock k 0 its d4 = (Inr (), d5)"
    and u5: "users d5 = users d4" and t5: "tasks d5 = tasks d4" and r5: "roles d5 = roles d4"
    and i5: "map item_facts (items d5)
               = map item_facts (items d4)
                   @ map (\<lambda>(i, it). (k, d_title it, d_executor_id it, i)) (enumerate 0 its)"
    by auto
  have body: "create_body clock user v d = (Inr task, d5)"
    by (simp add: create_body_def v s0 tk s2 s3 s4 s5)
  have "users d5 = users d" using u5 u4 u3 u2 by (simp add: d1_def)
  moreover have "tasks d5 = tasks d @ [task]" using t5 t4 t3 t2 by (simp add: d1_def)
  moreover have "map role_triple (roles d5)
               = map role_triple (roles d) @ (k, user_pk user, ''assigner'')
                   # map (\<lambda>u. (k, u, ''co_executor'')) co @ map (\<lambda>u. (k, u, ''observer'')) obs"
    by (simp add: r5 r4 r3 r2)
  moreover have "map item_facts (items d5)
               = map item_facts (items d)
                   @ map (\<lambda>(i, it). (k, d_title it, d_executor_id it, i)) (enumerate 0 its)"
    by (simp add: i5 i4 i3 i2 d1_def)
  ultimately show ?thesis using body by blast
qed


text \<open>
  C6 (amended). Task creation is one all-or-nothing operation. When it raises, the store
  is the store on entry. When the requesting user and the co-executor and observer ids
  are existing users, neither id list repeats an id, every item definition has an
  absent or existing executor and carries no \<open>order\<close> of its own, and every role of the
  store references a task of the store, it succeeds and adds: the task; after the roles
  of the store, the assigner role of the requesting user, then one co-executor role per
  co-executor id, then one observer role per observer id, that is
  \<open>1 + |co-executors| + |observers|\<close> role rows (four for [A, B] and [C]); and one
  item per definition, in input order, with \<open>order\<close> equal to its position from 0.
\<close>

theorem task_creation_all_or_nothing:
  "(TaskCreateSerializer_create clock user v d = (Inl e, dx) \<longrightarrow> dx = d)
   \<and> (user_exists d (user_pk user)
        \<and> (\<forall>r \<in> set (roles d). task_exists d (role_task r))
        \<and> distinct (pop_list (c_co_executors v))
        \<and> (\<forall>u \<in> set (pop_list (c_co_executors v)). user_exists d u)
        \<and> distinct (pop_list (c_observers v))
        \<and> (\<forall>u \<in> set (pop_list (c_observers v)). user_exists d u)
        \<and> (\<forall>it \<in> set (pop_list (c_task_items v)). d_order it = None \<and> executor_ok d it)
      \<longrightarrow> (\<exists>d'. TaskCreateSerializer_create clock user v d
                   = (Inr (new_task d (c_title v) (c_description v)), d')
            \<and> users d' = users d
            \<and> tasks d' = tasks d @ [new_task d (c_title v) (c_description v)]
            \<and> map role_triple (roles d')
                = map role_triple (roles d)
                  @ (fresh_pk (map task_pk (tasks d)), user_pk user, ''assigner'')
                  # map (\<lambda>u. (fresh_pk (map task_pk (tasks d)), u, ''co_executor''))
                      (pop_list (c_co_executors v))
                  @ map (\<lambda>u. (fresh_pk (map task_pk (tasks d)), u, ''observer''))
                      (pop_list (c_observers v))
            \<and> map item_facts (items d')
                = map item_facts (items d)
                  @ map (\<lambda>(i, it). (fresh_pk (map task_pk (tasks d)), d_title it, d_executor_id it, i))
                      (enumerate 0 (pop_list (c_task_items v)))
            \<and> length (roles d')
                = length (roles d) + 1 + length (pop_list (c_co_executors v))
                  + length (pop_list (c_observers v))
            \<and> length (items d') = length (items d) + length (pop_list (c_task_items v))))"
proof (intro conjI impI)
  assume "TaskCreateSerializer_create clock user v d = (Inl e, dx)"
  then show "dx = d"
    by (simp add: TaskCreateSerializer_create_def atomic_rollback)
next
  let ?k = "fresh_pk (map task_pk (tasks d))"
  let ?t = "new_task d (c_title v) (c_description v)"
  assume a: "user_exists d (user_pk user)
        \<and> (\<forall>r \<in> set (roles d). task_exists d (role_task r))
        \<and> distinct (pop_list (c_co_executors v))
        \<and> (\<forall>u \<in> set (pop_list (c_co_executors v)). user_exists d u)
        \<and> distinct (pop_list (c_observers v))
        \<and> (\<forall>u \<in> set (pop_list (c_observers v)). user_exists d u)
        \<and> (\<forall>it \<in> set (pop_list (c_task_items v)). d_order it = None \<and> executor_ok d it)"
  from a creation_succeeds [of d user "pop_list (c_co_executors v)" "pop_list (c_observers v)"
         "pop_list (c_task_items v)" v ?k ?t clock]
  obtain d' where body: "create_body clock user v d = (Inr ?t, d')"
    and us: "users d' = users d" and ts: "tasks d' = tasks d @ [?t]"
    and rs: "map role_triple (roles d')
                = map role_triple (roles d)
                  @ (?k, user_pk user, ''assigner'')
                  # map (\<lambda>u. (?k, u, ''co_executor'')) (pop_list (c_co_executors v))
                  @ map (\<lambda>u. (?k, u, ''observer'')) (pop_list (c_observers v))"
    and ims: "map item_facts (items d')
                = map item_facts (items d)
                  @ map (\<lambda>(i, it). (?k, d_title it, d_executor_id it, i))
                      (enumerate 0 (pop_list (c_task_items v)))"
    by blast
  have res: "TaskCreateSerializer_create clock user v d = (Inr ?t, d')"
    by (simp add: TaskCreateSerializer_create_def atomic_def body)
  have "length (map role_triple (roles d'))
          = length (roles d) + 1 + length (pop_list (c_co_executors v))
            + length (pop_list (c_observers v))"
    by (subst rs) simp
  then have lr: "length (roles d')
          = length (roles d) + 1 + length (pop_list (c_co_executors v))
            + length (pop_list (c_observers v))"
    by simp
  have "length (map item_facts (items d')) = length (items d) + length (pop_list (c_task_items v))"
    by (subst ims) simp
  then have li: "length (items d') = length (items d) + length (pop_list (c_task_items v))"
    by simp
  show "\<exists>d'. TaskCreateSerializer_create clock user v d = (Inr ?t, d')
            \<and> users d' = users d
            \<and> tasks d' = tasks d @ [?t]
            \<and> map role_triple (roles d')
                = map role_triple (roles d)
                  @ (?k, user_pk user, ''assigner'')
                  # map (\<lambda>u. (?k, u, ''co_executor'')) (pop_list (c_co_executors v))
                  @ map (\<lambda>u. (?k, u, ''observer'')) (pop_list (c_observers v))
            \<and> map item_facts (items d')
                = map item_facts (items d)
                  @ map (\<lambda>(i, it). (?k, d_title it, d_executor_id it, i))
                      (enumerate 0 (pop_list (c_task_items v)))
            \<and> length (roles d')
                = length (roles d) + 1 + length (pop_list (c_co_executors v))
                  + length (pop_list (c_observers v))
            \<and> length (items d') = length (items d) + length (pop_list (c_task_items v))"
    using res us ts rs ims lr li by blast
qed

lemmas creation_defs =
  TaskCreateSerializer_create_def atomic_def create_body_def Task_objects_create_def new_task_def
  pop_list_def create_role_def TaskRole_objects_create_def Model_save_role_def create_item_def
  new_item_def TaskItem_save_def Model_save_item_def set_completed_at_def task_exists_def
  user_exists_def fresh_pk_def role_pks_def item_pks_def Let_def db0_def user4_def
  complex_task_def bad_task_def item_def_def clock7_def executor_ok_def

text \<open>
  User 1 creates a task with co-executors 2 and 3, observer 4 and two item definitions:
  four roles and two items with orders 0 and 1 result. When the second item names the
  executor 9, which no user has, the body has written the task, four roles and the first
  item when the store raises; the operation returns the store it started from.
\<close>

theorem task_creation_all_or_nothing_witness:
  "user_exists db0 (user_pk user1)
   \<and> list_all (\<lambda>r. task_exists db0 (role_task r)) (roles db0)
   \<and> pop_list (c_co_executors complex_task) = [2, 3]
   \<and> pop_list (c_observers complex_task) = [4]
   \<and> list_all (\<lambda>it. d_order it = None \<and> executor_ok db0 it) (pop_list (c_task_items complex_task))
   \<and> fst (TaskCreateSerializer_create clock7 user1 complex_task db0)
       = Inr (new_task db0 ''Complex Task'' ''Complex Description'')
   \<and> map role_triple (roles (snd (TaskCreateSerializer_create clock7 user1 complex_task db0)))
       = [(1, 1, ''assigner''), (1, 2, ''co_executor''), (1, 3, ''co_executor''), (1, 4, ''observer'')]
   \<and> map item_facts (items (snd (TaskCreateSerializer_create clock7 user1 complex_task db0)))
       = [(1, ''Item 1'', Some 2, 0), (1, ''Item 2'', Some 3, 1)]
   \<and> fst (create_body clock7 user1 bad_task db0) = Inl IntegrityError
   \<and> length (roles (snd (create_body clock7 user1 bad_task db0))) = 4
   \<and> length (items (snd (create_body clock7 user1 bad_task db0))) = 1
   \<and> TaskCreateSerializer_create clock7 user1 bad_task db0 = (Inl IntegrityError, db0)"
  using task_creation_all_or_nothing [of clock7 user1 complex_task db0 IntegrityError db0]
        task_creation_all_or_nothing [of clock7 user1 bad_task db0 IntegrityError db0]
  by (simp add: creation_defs fixture_defs role_triple_def item_facts_def)

text \<open>
  The claim as stated expects exactly three role rows from co-executors [A, B] and
  observers [C]; the operation writes four, the assigner's among them.
\<close>

theorem task_creation_three_roles_counterexample:
  "length (roles (snd (TaskCreateSerializer_create clock7 user1 complex_task db0))) = 4
   \<and> length (roles (snd (TaskCreateSerializer_create clock7 user1 complex_task db0))) \<noteq> 3"
  by (simp add: creation_defs fixture_defs)

section \<open>Progress percentage\<close>

text \<open>\<open>round_half_even\<close> returns a nearest integer, and the even one of two nearest.\<close>

lemma round_half_even_nearest: "\<bar>of_int (round_half_even x) - x\<bar> \<le> 1 / 2"
proof -
  define r where "r = x - of_int \<lfloor>x\<rfloor>"
  have r: "0 \<le> r" "r < 1"
    unfolding r_def by linarith+
  have x: "x = of_int \<lfloor>x\<rfloor> + r"
    by (simp add: r_def)
  consider "r < 1 / 2" | "1 / 2 < r" | "r = 1 / 2" by linarith
  then show ?thesis
  proof cases
    case 1
    then have "round_half_even x = \<lfloor>x\<rfloor>"
      by (simp add: round_half_even_def Let_def r_def)
    then show ?thesis using r 1 x by linarith
  next
    case 2
    then have "round_half_even x = \<lfloor>x\<rfloor> + 1"
      by (simp add: round_half_even_def Let_def r_def)
    then have "of_int (round_half_even x) - x = 1 - r"
      using x by simp
    then show ?thesis using r 2 by linarith
  next
    case 3
    then have "round_half_even x = \<lfloor>x\<rfloor> \<or> round_half_even x = \<lfloor>x\<rfloor> + 1"
      by (simp add: round_half_even_def Let_def r_def)
    then have "of_int (round_half_even x) - x = - r \<or> of_int (round_half_even x) - x = 1 - r"
      using x by auto
    then show ?thesis using 3 by auto
  qed
qed

lemma round_half_even_tie:
  assumes "\<bar>of_int (round_half_even x) - x\<bar> = 1 / 2"
  shows "even (round_half_even x)"
proof -
  define r where "r = x - of_int \<lfloor>x\<rfloor>"
  have r: "0 \<le> r" "r < 1"
    unfolding r_def by linarith+
  have x: "x = of_int \<lfloor>x\<rfloor> + r"
    by (simp add: r_def)
  consider "r < 1 / 2" | "1 / 2 < r" | "r = 1 / 2" by linarith
  then show ?thesis
  proof cases
    case 1
    then have "round_half_even x = \<lfloor>x\<rfloor>"
      by (simp add: round_half_even_def Let_def r_def)
    then have "\<bar>of_int (round_half_even x) - x\<bar> = r"
      using x r by simp
    with assms 1 show ?thesis by simp
  next
    case 2
    then have "round_half_even x = \<lfloor>x\<rfloor> + 1"
      by (simp add: round_half_even_def Let_def r_def)
    then have "of_int (round_half_even x) - x = 1 - r"
      using x by simp
    then have "\<bar>of_int (round_half_even x) - x\<bar> = 1 - r"
      using r by simp
    with assms 2 show ?thesis by simp
  next
    case 3
    then show ?thesis
      by (simp add: round_half_even_def Let_def r_def)
  qed
qed

text \<open>
  The error of rounding to a float is at most half the spacing of the floats, so the float
  product \<open>(completed / total) * 100\<close> is within \<open>164 / 2 ^ 53\<close> of the exact
  percentage.
\<close>

lemma pow2_pos: "0 < pow2 k"
  by (simp add: pow2_def)

lemma pow2_mono: "a \<le> b \<Longrightarrow> pow2 a \<le> pow2 b"
proof -
  assume ab: "a \<le> b"
  have p: "pow2 k = 2 powi k" for k
    by (simp add: pow2_def power_int_def inverse_eq_divide power_one_over)
  show ?thesis unfolding p using ab by (intro power_int_increasing) auto
qed

lemma pow2_powi: "pow2 k = 2 powi k"
  by (simp add: pow2_def power_int_def inverse_eq_divide power_one_over)

lemma pow2_diff: "pow2 (a - b) = pow2 a / pow2 b"
  by (simp add: pow2_powi power_int_diff)

lemma ilog2_lower:
  assumes "0 < x"
  shows "pow2 (ilog2 x) \<le> x"
proof -
  obtain p q where pq: "quotient_of x = (p, q)" by (cases "quotient_of x")
  have q: "0 < q" using pq by (rule quotient_of_denom_pos)
  have x: "x = of_int p / of_int q" using pq by (rule quotient_of_div)
  have p: "0 < p" using assms q x by (simp add: zero_less_divide_iff)
  define e where "e = bitlen p - bitlen q"
  show ?thesis
  proof (cases "pow2 e \<le> x")
    case True
    then show ?thesis by (simp add: ilog2_def pq e_def Let_def)
  next
    case False
    then have i: "ilog2 x = e - 1" by (simp add: ilog2_def pq e_def Let_def)
    have bp: "2 ^ nat (bitlen p - 1) \<le> p" using bitlen_bounds [OF p] by simp
    have bq: "q < 2 ^ nat (bitlen q)" using bitlen_bounds [OF q] by simp
    have bp1: "1 \<le> bitlen p" using p by (simp add: bitlen_alt_def)
    have bq0: "0 \<le> bitlen q" by (rule bitlen_nonneg)
    have "pow2 (bitlen p - 1) \<le> of_int p"
    proof -
      have "(of_int (2 ^ nat (bitlen p - 1)) :: rat) \<le> of_int p"
        using bp by (simp only: of_int_le_iff)
      then show ?thesis using bp1 by (simp add: pow2_def)
    qed
    moreover have "of_int q \<le> pow2 (bitlen q)"
    proof -
      have "(of_int q :: rat) \<le> of_int (2 ^ nat (bitlen q))"
        using bq by (simp only: of_int_le_iff)
      then show ?thesis using bq0 by (simp add: pow2_def)
    qed
    ultimately have "pow2 (bitlen p - 1) / pow2 (bitlen q) \<le> of_int p / of_int q"
      using q p pow2_pos [of "bitlen p - 1"] by (intro frac_le) auto
    moreover have "pow2 (e - 1) = pow2 (bitlen p - 1) / pow2 (bitlen q)"
      using pow2_diff [of "bitlen p - 1" "bitlen q"] by (simp add: e_def algebra_simps)
    ultimately have "pow2 (e - 1) \<le> of_int p / of_int q" by simp
    then have "pow2 (e - 1) \<le> x" by (simp only: x)
    then show ?thesis by (simp only: i)
  qed
qed

lemma ilog2_le:
  assumes "0 < x" and "x < pow2 (k + 1)"
  shows "ilog2 x \<le> k"
proof (rule ccontr)
  assume "\<not> ilog2 x \<le> k"
  then have "k + 1 \<le> ilog2 x" by simp
  then have "pow2 (k + 1) \<le> pow2 (ilog2 x)" by (rule pow2_mono)
  also have "\<dots> \<le> x" using assms(1) by (rule ilog2_lower)
  finally show False using assms(2) by simp
qed

lemma fl_error:
  assumes "0 < x"
  shows "\<bar>fl x - x\<bar> \<le> pow2 (max (ilog2 x - 52) (- 1074)) / 2"
proof -
  define s where "s = pow2 (max (ilog2 x - 52) (- 1074))"
  have s: "0 < s" by (simp add: s_def pow2_pos)
  have f: "fl x = of_int (round_half_even (x / s)) * s"
    using assms by (simp add: fl_def Let_def s_def)
  have "fl x - x = (of_int (round_half_even (x / s)) - x / s) * s"
    using s by (simp add: f algebra_simps)
  then have "\<bar>fl x - x\<bar> = \<bar>of_int (round_half_even (x / s)) - x / s\<bar> * s"
    using s by (simp add: abs_mult)
  also have "\<dots> \<le> (1 / 2) * s"
    using round_half_even_nearest [of "x / s"] s by (intro mult_right_mono) auto
  finally show ?thesis by (simp add: s_def)
qed

lemma fl_nonneg: "0 \<le> x \<Longrightarrow> 0 \<le> fl x"
proof -
  assume x: "0 \<le> x"
  have "0 \<le> round_half_even y" if "0 \<le> y" for y
  proof -
    from that have "0 \<le> \<lfloor>y\<rfloor>" by simp
    then show ?thesis by (simp add: round_half_even_def Let_def)
  qed
  then show ?thesis
    using x by (simp add: fl_def Let_def pow2_pos less_imp_le)
qed

lemma fl_error_below:
  assumes "0 \<le> x" and "x < pow2 (k + 1)" and "- 1022 \<le> k"
  shows "\<bar>fl x - x\<bar> \<le> pow2 (k - 53)"
proof (cases "x = 0")
  case True
  then show ?thesis by (simp add: fl_def pow2_pos less_imp_le)
next
  case False
  then have x: "0 < x" using assms(1) by simp
  have "ilog2 x \<le> k" using x assms(2) by (rule ilog2_le)
  then have "max (ilog2 x - 52) (- 1074) \<le> k - 52" using assms(3) by simp
  then have "pow2 (max (ilog2 x - 52) (- 1074)) \<le> pow2 (k - 52)" by (rule pow2_mono)
  moreover have "pow2 (k - 52) / 2 = pow2 (k - 53)"
    using pow2_diff [of "k - 52" 1] by (simp add: pow2_def [of 1])
  ultimately show ?thesis using fl_error [OF x] by simp
qed

lemma float_product_accuracy:
  assumes "c \<le> n" and "0 < n"
  shows "\<bar>float_mul (true_div c n) 100 - 100 * of_nat c / of_nat n\<bar> \<le> 164 / 2 ^ 53"
proof -
  define y :: rat where "y = of_nat c / of_nat n"
  have y0: "0 \<le> y" by (simp add: y_def)
  have y1: "y \<le> 1" using assms by (simp add: y_def)
  have "y < pow2 (0 + 1)" using y1 by (simp add: pow2_def)
  from fl_error_below [OF y0 this]
  have ey: "\<bar>fl y - y\<bar> \<le> 1 / 2 ^ 53" by (simp add: pow2_def)
  define z where "z = fl y * 100"
  have z0: "0 \<le> z" using fl_nonneg [OF y0] by (simp add: z_def)
  have "fl y \<le> 1 + 1 / 2 ^ 53" using ey y1 by linarith
  then have "z < pow2 (6 + 1)" by (simp add: z_def pow2_def)
  from fl_error_below [OF z0 this]
  have ez: "\<bar>fl z - z\<bar> \<le> 1 / 2 ^ 47" by (simp add: pow2_def)
  have "\<bar>z - 100 * y\<bar> = 100 * \<bar>fl y - y\<bar>"
    by (simp add: z_def abs_if)
  then have "\<bar>z - 100 * y\<bar> \<le> 100 / 2 ^ 53" using ey by simp
  then have "\<bar>fl z - 100 * y\<bar> \<le> 1 / 2 ^ 47 + 100 / 2 ^ 53" using ez by linarith
  moreover have "float_mul (true_div c n) 100 = fl z"
    by (simp add: float_mul_def true_div_def z_def y_def)
  moreover have "100 * of_nat c / of_nat n = 100 * y" by (simp add: y_def)
  ultimately show ?thesis by simp
qed

lemma progress_two_of_three:
  "progress_percentage db_two_of_three task1 = PyFloat (fl (6667 / 100))"
  by code_simp

lemma progress_one_of_32:
  "progress_percentage db_one_of_32 task1 = PyFloat (fl (312 / 100))"
  by code_simp

lemma fl_312_313: "fl (312 / 100) \<noteq> fl (313 / 100)" and fl_312_exact: "fl (312 / 100) \<noteq> 313 / 100"
  by code_simp+

lemma spec_progress_one_of_32: "spec_progress 1 32 = 313 / 100"
  by code_simp

text \<open>
  C5 (amended). \<open>progress_percentage\<close> returns the integer 0 for a task without items.
  Otherwise let \<open>x\<close> be the float product \<open>(completed / total) * 100\<close>; the result is
  the float nearest to \<open>k / 100\<close>, where \<open>k\<close> is an integer nearest to \<open>100 x\<close>, and
  when two integers are equally near \<open>k\<close> is the even one: rounding is to two decimal
  places with ties to even, not half-up. The hundredth \<open>k / 100\<close> differs from the exact
  percentage \<open>100 * completed / total\<close> by at most \<open>1 / 200 + 164 / 2 ^ 53\<close>. For
  items completed, completed, todo the result is the float 66.67.
\<close>

theorem progress_percentage_rounds_half_even:
  "(task_items d t = [] \<longrightarrow> progress_percentage d t = PyInt 0)
   \<and> (task_items d t \<noteq> [] \<longrightarrow>
        (\<exists>k. progress_percentage d t = PyFloat (fl (of_int k / 100))
             \<and> \<bar>of_int k
                  - 100 * float_mul (true_div (length (filter (\<lambda>i. status i = ''completed'') (task_items d t)))
                                             (length (task_items d t))) 100\<bar> \<le> 1 / 2
             \<and> (\<bar>of_int k
                  - 100 * float_mul (true_div (length (filter (\<lambda>i. status i = ''completed'') (task_items d t)))
                                             (length (task_items d t))) 100\<bar> = 1 / 2
                 \<longrightarrow> even k)
             \<and> \<bar>(of_int k :: rat) / 100
                  - 100 * of_nat (length (filter (\<lambda>i. status i = ''completed'') (task_items d t)))
                      / of_nat (length (task_items d t))\<bar> \<le> 1 / 200 + 164 / 2 ^ 53))
   \<and> progress_percentage db_two_of_three task1 = PyFloat (fl (6667 / 100))"
proof (intro conjI impI)
  assume "task_items d t = []"
  then show "progress_percentage d t = PyInt 0"
    by (simp add: progress_percentage_def)
next
  let ?c = "length (filter (\<lambda>i. status i = ''completed'') (task_items d t))"
  let ?n = "length (task_items d t)"
  let ?x = "float_mul (true_div ?c ?n) 100"
  let ?k = "round_half_even (?x * 100)"
  assume ne: "task_items d t \<noteq> []"
  then have res: "progress_percentage d t = PyFloat (fl (of_int ?k / 100))"
    by (simp add: progress_percentage_def Let_def py_round2_def)
  have near: "\<bar>of_int ?k - 100 * ?x\<bar> \<le> 1 / 2"
    using round_half_even_nearest [of "?x * 100"] by (simp add: mult.commute)
  have tie: "\<bar>of_int ?k - 100 * ?x\<bar> = 1 / 2 \<longrightarrow> even ?k"
    using round_half_even_tie [of "?x * 100"] by (simp add: mult.commute)
  have "?c \<le> ?n" by simp
  moreover have "0 < ?n" using ne by simp
  ultimately have acc: "\<bar>?x - 100 * of_nat ?c / of_nat ?n\<bar> \<le> 164 / 2 ^ 53"
    by (rule float_product_accuracy)
  have "\<bar>of_int ?k / 100 - ?x\<bar> \<le> 1 / 200"
    using near by (simp add: abs_if field_simps split: if_splits)
  with acc have tot: "\<bar>(of_int ?k :: rat) / 100 - 100 * of_nat ?c / of_nat ?n\<bar> \<le> 1 / 200 + 164 / 2 ^ 53"
    by linarith
  show "\<exists>k. progress_percentage d t = PyFloat (fl (of_int k / 100))
             \<and> \<bar>of_int k - 100 * ?x\<bar> \<le> 1 / 2
             \<and> (\<bar>of_int k - 100 * ?x\<bar> = 1 / 2 \<longrightarrow> even k)
             \<and> \<bar>(of_int k :: rat) / 100 - 100 * of_nat ?c / of_nat ?n\<bar> \<le> 1 / 200 + 164 / 2 ^ 53"
    using res near tie tot by blast
next
  show "progress_percentage db_two_of_three task1 = PyFloat (fl (6667 / 100))"
    by (rule progress_two_of_three)
qed

text \<open>
  Task 1 has no items in the store of four users and the result is 0; with items
  completed, completed, todo the result is the float 66.67, which is
  \<open>4691484174324859 / 2 ^ 46\<close>.
\<close>

theorem progress_percentage_rounds_half_even_witness:
  "task_items db0 task1 = [] \<and> progress_percentage db0 task1 = PyInt 0
   \<and> task_items db_two_of_three task1 \<noteq> []
   \<and> progress_percentage db_two_of_three task1 = PyFloat (4691484174324859 / 70368744177664)"
proof -
  have e: "task_items db0 task1 = []"
    by (simp add: task_items_def db0_def)
  have n: "task_items db_two_of_three task1 \<noteq> []"
    by (simp add: task_items_def db_two_of_three_def fixture_defs)
  have v: "fl (6667 / 100) = 4691484174324859 / 70368744177664"
    by code_simp
  from progress_percentage_rounds_half_even [of db0 task1] e
  have "progress_percentage db0 task1 = PyInt 0" by blast
  moreover from progress_percentage_rounds_half_even [of db_two_of_three task1]
  have "progress_percentage db_two_of_three task1 = PyFloat (fl (6667 / 100))" by blast
  ultimately show ?thesis using e n v by simp
qed

text \<open>
  With 1 completed item of 32 the exact percentage is 3.125, a tie. Half-up rounding, as
  the claim states it, gives 3.13; the code returns the float 3.12.
\<close>

theorem progress_percentage_half_up_counterexample:
  "spec_progress 1 32 = 313 / 100
   \<and> progress_percentage db_one_of_32 task1 = PyFloat (fl (312 / 100))
   \<and> progress_percentage db_one_of_32 task1 \<noteq> PyFloat (fl (spec_progress 1 32))
   \<and> progress_percentage db_one_of_32 task1 \<noteq> PyFloat (spec_progress 1 32)"
  unfolding progress_one_of_32 spec_progress_one_of_32
  using fl_312_313 fl_312_exact by simp

section \<open>A time log's item belongs to its task\<close>

text \<open>The limit of the validator is the float that the literal \<open>0.01\<close> denotes.\<close>

lemma min_hours_limit_is_float: "fl (1 / 100) = min_hours_limit"
  by code_simp












end
